theory Spec2Isabelle
  imports Complex_Main
begin

section \<open>Tensors\<close>

text \<open>
  A two-dimensional tensor is the list of its rows; \<open>X.shape[0]\<close> is the length of
  the list. Entries are reals: rounding of floating-point numbers is not modelled,
  only the value \<open>nan\<close> that a reduction over too few rows produces.
  The model covers query tensors whose column count is the model's input dimension,
  which is what \<open>torch.cat\<close> along dimension 0 demands of them.
\<close>

type_synonym tensor2 = "real list list"

definition ones :: "nat \<Rightarrow> nat \<Rightarrow> tensor2" where
  "ones n m = replicate n (replicate m 1)"

definition scalar_mul :: "real \<Rightarrow> tensor2 \<Rightarrow> tensor2" where
  "scalar_mul c A = map (map (\<lambda>v. c * v)) A"

definition cat_dim1 :: "tensor2 \<Rightarrow> tensor2 \<Rightarrow> tensor2" where
  "cat_dim1 A B = map (\<lambda>(a, b). a @ b) (zip A B)"

definition cat_dim0 :: "tensor2 \<Rightarrow> tensor2 \<Rightarrow> tensor2" where
  "cat_dim0 A B = A @ B"

section \<open>Derivative-augmented feature space\<close>

text \<open>
  \<^verbatim>\<open>
  def _augment_with_deriv_index(self, X, indx):
      return torch.cat((X, indx * torch.ones(X.shape[0], 1)), dim=1)
  \<close>
\<close>

definition augment_with_deriv_index :: "tensor2 \<Rightarrow> int \<Rightarrow> tensor2" where
  "augment_with_deriv_index X indx =
     cat_dim1 X (scalar_mul (of_int indx) (ones (length X) 1))"

text \<open>
  \<^verbatim>\<open>
  def _get_deriv_constraint_points(self):
      deriv_cp = torch.tensor([])
      for i in self.monotonic_idxs:
          induc_i = self._augment_with_deriv_index(self.inducing_points, i + 1)
          deriv_cp = torch.cat((deriv_cp, induc_i), dim=0)
      return deriv_cp
  \<close>
  The loop, with the accumulator \<open>deriv_cp\<close> as an argument.
\<close>

fun deriv_cp_loop :: "tensor2 \<Rightarrow> int list \<Rightarrow> tensor2 \<Rightarrow> tensor2" where
  "deriv_cp_loop inducing [] deriv_cp = deriv_cp"
| "deriv_cp_loop inducing (i # idxs) deriv_cp =
     deriv_cp_loop inducing idxs
       (cat_dim0 deriv_cp (augment_with_deriv_index inducing (i + 1)))"

section \<open>Errors, warnings, floating-point results\<close>

datatype error =
    AssertionError
  | RuntimeError string
  | TypeError string
  | ZeroDivisionError
  | IndexError
  | ValidationError

datatype warning =
    UserWarning string
  | ShortfallWarning

text \<open>
  A reduction over the sample dimension yields \<open>nan\<close> when it has too few rows
  (\<open>torch.mean\<close> over none, the unbiased \<open>torch.var\<close> over fewer than two), and
  \<open>clamp_min\<close> and \<open>norm.cdf\<close> pass \<open>nan\<close> on.
\<close>

datatype fl = NaN | Fin real

text \<open>A result of \<open>squeeze()\<close> is zero-dimensional or one-dimensional.\<close>

datatype vec = Scalar fl | Vector "fl list"

fun shape :: "vec \<Rightarrow> nat list" where
  "shape (Scalar v) = []"
| "shape (Vector vs) = [length vs]"

fun entries :: "vec \<Rightarrow> fl list" where
  "entries (Scalar v) = [v]"
| "entries (Vector vs) = vs"

fun fl_map :: "(real \<Rightarrow> real) \<Rightarrow> fl \<Rightarrow> fl" where
  "fl_map f NaN = NaN"
| "fl_map f (Fin x) = Fin (f x)"

fun vec_map :: "(fl \<Rightarrow> fl) \<Rightarrow> vec \<Rightarrow> vec" where
  "vec_map f (Scalar v) = Scalar (f v)"
| "vec_map f (Vector vs) = Vector (map f vs)"

fun fl_nonneg :: "fl \<Rightarrow> bool" where
  "fl_nonneg NaN = False"
| "fl_nonneg (Fin x) = (0 \<le> x)"

definition column :: "tensor2 \<Rightarrow> nat \<Rightarrow> real list" where
  "column A j = map (\<lambda>r. r ! j) A"

text \<open>
  \<open>torch.mean(A, dim=0)\<close> and \<open>torch.var(A, dim=0)\<close> of a tensor of shape
  \<open>[length A, n]\<close>. A list of rows does not record the column count of a tensor
  without rows, so \<open>n\<close> is an argument.
\<close>

definition mean_col :: "real list \<Rightarrow> fl" where
  "mean_col c = (if c = [] then NaN else Fin (sum_list c / real (length c)))"

definition var_col :: "real list \<Rightarrow> fl" where
  "var_col c =
     (if length c \<le> 1 then NaN
      else Fin (sum_list (map (\<lambda>x. (x - sum_list c / real (length c))\<^sup>2) c)
                / real (length c - 1)))"

definition mean_dim0 :: "nat \<Rightarrow> tensor2 \<Rightarrow> fl list" where
  "mean_dim0 n A = map (\<lambda>j. mean_col (column A j)) [0..<n]"

definition var_dim0 :: "nat \<Rightarrow> tensor2 \<Rightarrow> fl list" where
  "var_dim0 n A = map (\<lambda>j. var_col (column A j)) [0..<n]"

fun clamp_min :: "real \<Rightarrow> fl \<Rightarrow> fl" where
  "clamp_min c NaN = NaN"
| "clamp_min c (Fin x) = Fin (max x c)"

text \<open>\<open>squeeze()\<close> removes every dimension of size one: shape \<open>[1]\<close> becomes \<open>[]\<close>.\<close>

fun squeeze :: "fl list \<Rightarrow> vec" where
  "squeeze [v] = Scalar v"
| "squeeze vs = Vector vs"

text \<open>
  Modelled from the spec: \<open>aepsych.utils.promote_0d\<close> is not among the sources.
  A scalar is promoted to a vector of length one; anything else is returned as it
  is.
\<close>

fun promote_0d :: "vec \<Rightarrow> vec" where
  "promote_0d (Scalar v) = Vector [v]"
| "promote_0d (Vector vs) = Vector vs"

section \<open>The model state\<close>

text \<open>The mean module's parameter \<open>constant\<close>: its value and whether it is learnable.\<close>

record ConstantMeanPartialObsGrad =
  constant_value :: real
  requires_grad :: bool

datatype likelihood = BernoulliLikelihood | GaussianLikelihood | OtherLikelihood

text \<open>
  The attributes of a \<open>MonotonicRejectionGP\<close> that the operations below read or write.
  The covariance module and the variational strategy are built by the numerics
  libraries and enter no operation modelled here.
\<close>

record MonotonicRejectionGP =
  lb :: "real list"
  ub :: "real list"
  dim :: nat
  mean_module :: ConstantMeanPartialObsGrad
  likelihood :: likelihood
  num_induc :: nat
  monotonic_idxs :: "int list"
  num_samples :: nat
  num_rejection_samples :: nat
  fixed_prior_mean :: "real option"
  inducing_points :: tensor2
  train_inputs :: "tensor2 option"
  train_targets :: "tensor2 option"

text \<open>
  What the numerics libraries (botorch, gpytorch, scipy) and the utilities of the
  package that are not among the sources compute. Every operation takes them as one
  argument, and every theorem holds for all of them.
  \<^item> \<open>sobol_engine k\<close>: the \<open>k\<close>-th point of the Sobol sequence in the unit cube;
  \<^item> \<open>posterior_draw self x_aug k j\<close>: the value of the \<open>k\<close>-th joint draw from
    \<open>self.posterior(x_aug)\<close> at the \<open>j\<close>-th row of \<open>x_aug\<close>;
  \<^item> \<open>norm_cdf\<close>, \<open>norm_ppf\<close>: \<open>scipy.stats.norm.cdf\<close> and \<open>norm.ppf\<close>;
  \<^item> \<open>optimised_constant self\<close>: the value the optimiser behind
    \<open>fit_gpytorch_model\<close> leaves in a learnable mean constant;
  \<^item> \<open>int_root r c\<close>: \<open>int(r ** (1 / c))\<close> as Python's floating-point arithmetic
    computes it (\<open>int(900 ** (1 / 2))\<close> is \<open>30\<close>, \<open>int(27000 ** (1 / 3))\<close> is \<open>29\<close>);
  \<^item> the remaining fields: the grid, optimisation and JND numerics of \<open>base.py\<close>,
    applied after the reshapes that precede them in the source.
\<close>

record numerics =
  sobol_engine :: "nat \<Rightarrow> real list"
  posterior_draw :: "MonotonicRejectionGP \<Rightarrow> tensor2 \<Rightarrow> nat \<Rightarrow> nat \<Rightarrow> real"
  norm_cdf :: "real \<Rightarrow> real"
  norm_ppf :: "real \<Rightarrow> real"
  optimised_constant :: "MonotonicRejectionGP \<Rightarrow> real"
  make_scaled_sobol :: "real list \<Rightarrow> real list \<Rightarrow> nat \<Rightarrow> tensor2"
  dim_grid :: "real list \<Rightarrow> real list \<Rightarrow> nat \<Rightarrow> nat \<Rightarrow> tensor2"
  powell_max :: "MonotonicRejectionGP \<Rightarrow> tensor2 \<Rightarrow> vec \<Rightarrow> real \<times> real list"
  powell_min :: "MonotonicRejectionGP \<Rightarrow> tensor2 \<Rightarrow> vec \<Rightarrow> real \<times> real list"
  gradient_jnd :: "tensor2 \<Rightarrow> int \<Rightarrow> vec \<Rightarrow> vec"
  multid_jnd :: "tensor2 \<Rightarrow> int \<Rightarrow> vec \<Rightarrow> vec"
  gradient_jnd_samples :: "tensor2 \<Rightarrow> int \<Rightarrow> tensor2 \<Rightarrow> tensor2"
  multid_jnd_samples :: "tensor2 \<Rightarrow> int \<Rightarrow> tensor2 \<Rightarrow> tensor2"
  quantile_clip :: "tensor2 \<Rightarrow> real \<Rightarrow> real list"
  int_root :: "nat \<Rightarrow> nat \<Rightarrow> nat"

section \<open>Construction\<close>

text \<open>
  Modelled from the spec: \<open>aepsych.utils._process_bounds\<close> is not among the sources.
  Given lower bound, upper bound and an optional dimensionality it returns the
  canonical triple, and fails with a validation error if the lengths disagree, if
  \<open>dim\<close> is inconsistent with their length, or if any \<open>lower[i] \<ge> upper[i]\<close>.
\<close>

definition process_bounds ::
  "real list \<Rightarrow> real list \<Rightarrow> nat option \<Rightarrow> error + (real list \<times> real list \<times> nat)" where
  "process_bounds l u d =
     (if length l \<noteq> length u then Inl ValidationError
      else if (case d of None \<Rightarrow> False | Some k \<Rightarrow> k \<noteq> length l) then Inl ValidationError
      else if list_ex (\<lambda>(a, b). b \<le> a) (zip l u) then Inl ValidationError
      else Inr (l, u, length l))"

text \<open>
  \<open>draw_sobol_samples(bounds=bounds_, n=num_induc, q=1).squeeze(1)\<close>: the first
  \<open>n\<close> points of the Sobol sequence, scaled from the unit cube to the bounds.
\<close>

definition draw_sobol_samples :: "numerics \<Rightarrow> real list \<Rightarrow> real list \<Rightarrow> nat \<Rightarrow> tensor2" where
  "draw_sobol_samples num l u n =
     map (\<lambda>k. map (\<lambda>(p, a, b). a + (b - a) * p) (zip (sobol_engine num k) (zip l u))) [0..<n]"

text \<open>
  \<^verbatim>\<open>
  lb, ub, dim = _process_bounds(lb, ub, dim)
  if likelihood is None:
      likelihood = BernoulliLikelihood()
  ...
  inducing_points = draw_sobol_samples(bounds=bounds_, n=num_induc, q=1).squeeze(1)
  ...
  if mean_module is None:
      mean_module = ConstantMeanPartialObsGrad(prior=...)
  if fixed_prior_mean is not None:
      if isinstance(likelihood, BernoulliLikelihood):
          fixed_prior_mean = norm.ppf(fixed_prior_mean)
      mean_module.constant.requires_grad_(False)
      mean_module.constant.copy_(torch.tensor([fixed_prior_mean]))
  ...
  self.num_induc = num_induc
  self.monotonic_idxs = monotonic_idxs
  self.num_samples = num_samples
  self.num_rejection_samples = num_rejection_samples
  self.fixed_prior_mean = fixed_prior_mean
  self.inducing_points = inducing_points
  \<close>
  A fresh constant mean starts learnable, at zero.
\<close>

definition init ::
  "numerics \<Rightarrow> int list \<Rightarrow> real list \<Rightarrow> real list \<Rightarrow> nat option \<Rightarrow>
   ConstantMeanPartialObsGrad option \<Rightarrow> likelihood option \<Rightarrow> real option \<Rightarrow>
   nat \<Rightarrow> nat \<Rightarrow> nat \<Rightarrow> error + MonotonicRejectionGP" where
  "init num idxs l u d mean_arg likelihood_arg fpm_arg n_induc n_samples n_rejection =
     (case process_bounds l u d of
        Inl e \<Rightarrow> Inl e
      | Inr (l1, u1, d1) \<Rightarrow>
          (let lik = (case likelihood_arg of None \<Rightarrow> BernoulliLikelihood | Some k \<Rightarrow> k);
               inducing = draw_sobol_samples num l1 u1 n_induc;
               mean0 = (case mean_arg of
                          None \<Rightarrow> \<lparr>constant_value = 0, requires_grad = True\<rparr>
                        | Some m \<Rightarrow> m);
               fpm = (case fpm_arg of
                        None \<Rightarrow> None
                      | Some p \<Rightarrow> Some (if lik = BernoulliLikelihood then norm_ppf num p else p));
               mean1 = (case fpm of
                          None \<Rightarrow> mean0
                        | Some v \<Rightarrow> mean0\<lparr>requires_grad := False, constant_value := v\<rparr>)
           in Inr \<lparr>lb = l1, ub = u1, dim = d1, mean_module = mean1, likelihood = lik,
                   num_induc = n_induc, monotonic_idxs = idxs, num_samples = n_samples,
                   num_rejection_samples = n_rejection, fixed_prior_mean = fpm,
                   inducing_points = inducing, train_inputs = None,
                   train_targets = None\<rparr>))"

section \<open>Fitting\<close>

text \<open>
  The snapshot \<open>state_dict()\<close> holds the parameters by name; of them the state above
  has the mean constant. \<open>load_state_dict\<close> copies the values back and leaves
  \<open>requires_grad\<close> as it is. The optimiser behind \<open>fit_gpytorch_model\<close> changes the
  parameters that require a gradient, and no others.
\<close>

definition set_train_data :: "MonotonicRejectionGP \<Rightarrow> tensor2 \<Rightarrow> tensor2 \<Rightarrow> MonotonicRejectionGP" where
  "set_train_data self x y = self\<lparr>train_inputs := Some x, train_targets := Some y\<rparr>"

definition state_dict :: "MonotonicRejectionGP \<Rightarrow> real" where
  "state_dict self = constant_value (mean_module self)"

definition load_state_dict :: "MonotonicRejectionGP \<Rightarrow> real \<Rightarrow> MonotonicRejectionGP" where
  "load_state_dict self sd = self\<lparr>mean_module := (mean_module self)\<lparr>constant_value := sd\<rparr>\<rparr>"

definition fit_gpytorch_model :: "numerics \<Rightarrow> MonotonicRejectionGP \<Rightarrow> MonotonicRejectionGP" where
  "fit_gpytorch_model num self =
     (if requires_grad (mean_module self)
      then self\<lparr>mean_module := (mean_module self)\<lparr>constant_value := optimised_constant num self\<rparr>\<rparr>
      else self)"

text \<open>
  \<^verbatim>\<open>
  def _set_model(self, train_x, train_y, model_state_dict=None, likelihood_state_dict=None):
      train_x_aug = self._augment_with_deriv_index(train_x, 0)
      self.set_train_data(train_x_aug, train_y)
      if model_state_dict is not None:
          self.load_state_dict(model_state_dict)
      ...
      mll = fit_gpytorch_model(mll)
  \<close>
\<close>

definition set_model ::
  "numerics \<Rightarrow> MonotonicRejectionGP \<Rightarrow> tensor2 \<Rightarrow> tensor2 \<Rightarrow> real option \<Rightarrow> MonotonicRejectionGP" where
  "set_model num self train_x train_y model_state_dict =
     (let train_x_aug = augment_with_deriv_index train_x 0;
          self1 = set_train_data self train_x_aug train_y;
          self2 = (case model_state_dict of None \<Rightarrow> self1 | Some sd \<Rightarrow> load_state_dict self1 sd)
      in fit_gpytorch_model num self2)"

definition fit :: "numerics \<Rightarrow> MonotonicRejectionGP \<Rightarrow> tensor2 \<Rightarrow> tensor2 \<Rightarrow> MonotonicRejectionGP" where
  "fit num self train_x train_y = set_model num self train_x train_y None"

definition update ::
  "numerics \<Rightarrow> MonotonicRejectionGP \<Rightarrow> tensor2 \<Rightarrow> tensor2 \<Rightarrow> bool \<Rightarrow> MonotonicRejectionGP" where
  "update num self train_x train_y warmstart =
     set_model num self train_x train_y (if warmstart then Some (state_dict self) else None)"

section \<open>Sampling\<close>

text \<open>
  \<^verbatim>\<open>
  def _get_deriv_constraint_points(self):
      deriv_cp = torch.tensor([])
      for i in self.monotonic_idxs: ...
  \<close>
  starts the loop above from the empty tensor.
\<close>

definition get_deriv_constraint_points :: "MonotonicRejectionGP \<Rightarrow> tensor2" where
  "get_deriv_constraint_points self =
     deriv_cp_loop (inducing_points self) (monotonic_idxs self) []"

text \<open>Python's list repetition \<open>xs * n\<close>.\<close>

definition list_repeat :: "'a list \<Rightarrow> nat \<Rightarrow> 'a list" where
  "list_repeat xs n = concat (replicate n xs)"

text \<open>
  The batch of \<open>r\<close> joint draws from the posterior over \<open>x_aug\<close>: one row per draw,
  one value per row of \<open>x_aug\<close> (the single output dimension is left out).
\<close>

definition posterior_rsample ::
  "numerics \<Rightarrow> MonotonicRejectionGP \<Rightarrow> tensor2 \<Rightarrow> nat \<Rightarrow> tensor2" where
  "posterior_rsample num self x_aug r =
     map (\<lambda>k. map (posterior_draw num self x_aug k) [0..<length x_aug]) [0..<r]"

text \<open>
  Modelled from the spec: \<open>aepsych.acquisition.rejection_sampler.RejectionSampler\<close> is
  not among the sources. It draws \<open>num_rejection_samples\<close> joint samples in one batch;
  a draw passes when all its values at \<open>constrained_idx\<close> are \<open>\<ge> 0\<close>; if fewer than
  \<open>num_samples\<close> pass it emits a warning and returns all that passed, otherwise it
  returns the first \<open>num_samples\<close> passing draws.
\<close>

definition feasible :: "nat list \<Rightarrow> real list \<Rightarrow> bool" where
  "feasible constrained_idx s = list_all (\<lambda>i. 0 \<le> s ! i) constrained_idx"

definition RejectionSampler ::
  "nat \<Rightarrow> nat \<Rightarrow> nat list \<Rightarrow> (nat \<Rightarrow> tensor2) \<Rightarrow> warning list \<times> tensor2" where
  "RejectionSampler n_samples n_rejection constrained_idx rsample =
     (let passing = filter (feasible constrained_idx) (rsample n_rejection)
      in if length passing < n_samples then ([ShortfallWarning], passing)
         else ([], take n_samples passing))"

definition ratio_warning :: warning where
  "ratio_warning =
     UserWarning ''num_rejection_samples should be at least 20 times greater than num_samples.''"

text \<open>
  \<^verbatim>\<open>
  def sample(self, X, num_samples=None, num_rejection_samples=None):
      if num_samples is None:
          num_samples = self.num_samples
      if num_rejection_samples is None:
          num_rejection_samples = self.num_rejection_samples
      rejection_ratio = 20
      if num_samples * rejection_ratio > num_rejection_samples:
          warnings.warn(...)
      n = X.shape[0]
      x_aug = self._augment_with_deriv_index(X, 0)
      deriv_cp = self._get_deriv_constraint_points()
      x_aug = torch.cat((x_aug, deriv_cp), dim=0)
      assert x_aug.shape[0] == X.shape[0] + len(self.monotonic_idxs * self.num_induc)
      constrained_idx = torch.arange(n, x_aug.shape[0])
      with torch.no_grad():
          posterior = self.posterior(x_aug)
      sampler = RejectionSampler(num_samples=num_samples,
          num_rejection_samples=num_rejection_samples, constrained_idx=constrained_idx)
      samples = sampler(posterior)
      samples_f = samples[:, :n, 0].detach().cpu()
      return samples_f
  \<close>
  The result carries the warnings emitted during the call, in order.
\<close>

definition sample ::
  "numerics \<Rightarrow> MonotonicRejectionGP \<Rightarrow> tensor2 \<Rightarrow> nat option \<Rightarrow> nat option \<Rightarrow>
   error + (warning list \<times> tensor2)" where
  "sample num self X samples_arg rejection_arg =
     (let n_samples = (case samples_arg of None \<Rightarrow> num_samples self | Some s \<Rightarrow> s);
          n_rejection = (case rejection_arg of None \<Rightarrow> num_rejection_samples self | Some r \<Rightarrow> r);
          rejection_ratio = 20;
          warned = (if n_samples * rejection_ratio > n_rejection then [ratio_warning] else []);
          n = length X;
          x_aug0 = augment_with_deriv_index X 0;
          deriv_cp = get_deriv_constraint_points self;
          x_aug = cat_dim0 x_aug0 deriv_cp
      in if length x_aug \<noteq> length X + length (list_repeat (monotonic_idxs self) (num_induc self))
         then Inl AssertionError
         else (let constrained_idx = [n..<length x_aug];
                   (shortfall, samples) =
                      RejectionSampler n_samples n_rejection constrained_idx
                        (posterior_rsample num self x_aug)
               in Inr (warned @ shortfall, map (take n) samples)))"

text \<open>
  \<^verbatim>\<open>
  def predict(self, X, probability_space=False):
      samples_f = self.sample(X)
      mean = torch.mean(samples_f, dim=0).squeeze()
      variance = torch.var(samples_f, dim=0).clamp_min(0).squeeze()
      if probability_space:
          return (torch.Tensor(promote_0d(norm.cdf(mean))),
                  torch.Tensor(promote_0d(norm.cdf(variance))))
      return mean, variance
  \<close>
\<close>

definition predict ::
  "numerics \<Rightarrow> MonotonicRejectionGP \<Rightarrow> tensor2 \<Rightarrow> bool \<Rightarrow> error + (warning list \<times> vec \<times> vec)" where
  "predict num self X probability_space =
     (case sample num self X None None of
        Inl e \<Rightarrow> Inl e
      | Inr (ws, samples_f) \<Rightarrow>
          (let mean = squeeze (mean_dim0 (length X) samples_f);
               variance = squeeze (map (clamp_min 0) (var_dim0 (length X) samples_f))
           in if probability_space
              then Inr (ws, promote_0d (vec_map (fl_map (norm_cdf num)) mean),
                            promote_0d (vec_map (fl_map (norm_cdf num)) variance))
              else Inr (ws, mean, variance)))"

text \<open>
  The state every constructor call establishes and no operation changes: there are
  \<open>num_induc\<close> inducing points.
\<close>

definition inducing_ok :: "MonotonicRejectionGP \<Rightarrow> bool" where
  "inducing_ok self = (length (inducing_points self) = num_induc self)"

text \<open>
  The augmented point set of a \<open>sample\<close> call, and the draws of its batch that satisfy
  the monotonicity constraint, as the properties below name them.
\<close>

definition sample_points :: "MonotonicRejectionGP \<Rightarrow> tensor2 \<Rightarrow> tensor2" where
  "sample_points self X =
     cat_dim0 (augment_with_deriv_index X 0) (get_deriv_constraint_points self)"

definition accepted_draws ::
  "numerics \<Rightarrow> MonotonicRejectionGP \<Rightarrow> tensor2 \<Rightarrow> nat \<Rightarrow> tensor2" where
  "accepted_draws num self X r =
     filter (feasible [length X..<length (sample_points self X)])
       (posterior_rsample num self (sample_points self X) r)"

section \<open>Queries of the base class\<close>

definition apostrophe :: string where
  "apostrophe = [CHR 0x27]"

text \<open>
  \<^verbatim>\<open>
  def _get_extremum(self, extremum_type, n_samples=1000):
      ...
      d = make_scaled_sobol(self.lb, self.ub, n_samples, seed=0)
      fmean, _ = self.predict(d)
      if extremum_type == "max":
          estimate = ...; a = minimize(signed_model, estimate, args=-1, ...)
          return -a.fun, a.x
      elif extremum_type == "min":
          estimate = ...; a = minimize(signed_model, estimate, args=1, ...)
          return a.fun, a.x
      else:
          raise RuntimeError(
              f"Unknown extremum type: '{extremum_type}'! Valid types: 'min', 'max' ")
  \<close>
  \<open>powell_max\<close> and \<open>powell_min\<close> stand for the initial estimate and the call of
  \<open>scipy.optimize.minimize\<close>, returning \<open>(a.fun, a.x)\<close>.
\<close>

definition get_extremum ::
  "numerics \<Rightarrow> MonotonicRejectionGP \<Rightarrow> string \<Rightarrow> nat \<Rightarrow>
   error + (warning list \<times> real \<times> real list)" where
  "get_extremum num self extremum_type n_samples =
     (let d = make_scaled_sobol num (lb self) (ub self) n_samples
      in case predict num self d False of
           Inl e \<Rightarrow> Inl e
         | Inr (ws, fmean, var) \<Rightarrow>
             if extremum_type = ''max''
             then (let (a_fun, a_x) = powell_max num self d fmean in Inr (ws, - a_fun, a_x))
             else if extremum_type = ''min''
             then (let (a_fun, a_x) = powell_min num self d fmean in Inr (ws, a_fun, a_x))
             else Inl (RuntimeError
                        (''Unknown extremum type: '' @ apostrophe @ extremum_type @ apostrophe
                         @ ''! Valid types: '' @ apostrophe @ ''min'' @ apostrophe @ '', ''
                         @ apostrophe @ ''max'' @ apostrophe @ '' '')))"

definition get_max :: "numerics \<Rightarrow> MonotonicRejectionGP \<Rightarrow> error + (warning list \<times> real \<times> real list)" where
  "get_max num self = get_extremum num self ''max'' 1000"

definition get_min :: "numerics \<Rightarrow> MonotonicRejectionGP \<Rightarrow> error + (warning list \<times> real \<times> real list)" where
  "get_min num self = get_extremum num self ''min'' 1000"

text \<open>
  \<^verbatim>\<open>
  def get_jnd(self, grid=None, cred_level=None, intensity_dim=-1, confsamps=500,
              method="step"):
      if grid is None:
          grid = self.dim_grid()
      gridsize = int(grid.shape[0] ** (1 / grid.shape[1]))
      coords = torch.linspace(self.lb[intensity_dim], self.ub[intensity_dim], gridsize)
      if cred_level is None:
          fmean, _ = self.predict(grid)
          fmean = fmean.reshape(*[gridsize for i in range(self.dim)])
          if method == "taylor":
              return torch.tensor(1 / np.gradient(fmean, coords, axis=intensity_dim))
          elif method == "step":
              return torch.clip(torch.tensor(get_jnd_multid(...)), 0, np.inf)
      alpha = 1 - cred_level
      qlower = alpha / 2
      qupper = 1 - alpha / 2
      fsamps = self.sample(grid, confsamps)
      if method == "taylor":
          jnds = torch.tensor(1 / np.gradient(
              fsamps.reshape(confsamps, *[gridsize for i in range(self.dim)]),
              coords, axis=intensity_dim))
      elif method == "step":
          samps = [s.reshape((gridsize,) * self.dim) for s in fsamps]
          jnds = torch.stack([get_jnd_multid(s, coords, mono_dim=intensity_dim) for s in samps])
      else:
          raise RuntimeError(f"Unknown method {method}!")
      upper = torch.clip(torch.quantile(jnds, qupper, axis=0), 0, np.inf)
      lower = torch.clip(torch.quantile(jnds, qlower, axis=0), 0, np.inf)
      median = torch.clip(torch.quantile(jnds, 0.5, axis=0), 0, np.inf)
      return median, lower, upper
  \<close>
  The steps that can raise before the method is looked at are branches of the model:
  the division by \<open>grid.shape[1]\<close>, the indexing of the bounds, and
  \<open>reshape\<close>, which raises a runtime error unless the sizes asked for multiply to
  the number of elements (a model has at least one dimension, so at least one size
  is asked for).
  When \<open>cred_level\<close> is \<open>None\<close> and the method is neither name, the first block
  returns nothing and control reaches \<open>alpha = 1 - cred_level\<close>, where Python raises
  a \<open>TypeError\<close> for the subtraction of \<open>None\<close>.
\<close>

datatype jnd = Jnd vec | Jnd_interval "real list" "real list" "real list"

definition none_operand :: string where
  "none_operand =
     ''unsupported operand type(s) for -: '' @ apostrophe @ ''int'' @ apostrophe
     @ '' and '' @ apostrophe @ ''NoneType'' @ apostrophe"

definition unknown_method :: "string \<Rightarrow> string" where
  "unknown_method method = ''Unknown method '' @ method @ ''!''"

text \<open>The number of elements of a result of \<open>predict\<close>.\<close>

fun numel :: "vec \<Rightarrow> nat" where
  "numel (Scalar v) = 1"
| "numel (Vector vs) = length vs"

text \<open>
  \<open>grid.shape[1]\<close>. A list of rows does not record the column count of a tensor
  without rows; a query tensor has the model's dimension.
\<close>

definition shape1 :: "MonotonicRejectionGP \<Rightarrow> tensor2 \<Rightarrow> nat" where
  "shape1 self grid = (case grid of [] \<Rightarrow> dim self | r # rs \<Rightarrow> length r)"

text \<open>An index a Python sequence accepts: negative indices count from the end.\<close>

definition index_ok :: "'a list \<Rightarrow> int \<Rightarrow> bool" where
  "index_ok xs i = (- int (length xs) \<le> i \<and> i < int (length xs))"

text \<open>
  The message of torch's \<open>reshape\<close>, as in
  \<open>shape '[29, 29, 29]' is invalid for input of size 27000\<close>.
\<close>

fun show_nat :: "nat \<Rightarrow> string" where
  "show_nat n =
     (if n < 10 then [char_of (48 + n)]
      else show_nat (n div 10) @ [char_of (48 + n mod 10)])"

fun join_comma :: "string list \<Rightarrow> string" where
  "join_comma [] = []"
| "join_comma [x] = x"
| "join_comma (x # y # zs) = x @ '', '' @ join_comma (y # zs)"

definition shape_invalid :: "nat list \<Rightarrow> nat \<Rightarrow> string" where
  "shape_invalid sizes n =
     ''shape '' @ apostrophe @ ''['' @ join_comma (map show_nat sizes) @ '']'' @ apostrophe
     @ '' is invalid for input of size '' @ show_nat n"

definition stack_empty :: string where
  "stack_empty = ''stack expects a non-empty TensorList''"

definition get_jnd ::
  "numerics \<Rightarrow> MonotonicRejectionGP \<Rightarrow> tensor2 option \<Rightarrow> real option \<Rightarrow> int \<Rightarrow> nat \<Rightarrow> string \<Rightarrow>
   error + (warning list \<times> jnd)" where
  "get_jnd num self grid_arg cred_level intensity_dim confsamps method =
     (let grid = (case grid_arg of
                    None \<Rightarrow> dim_grid num (lb self) (ub self) (dim self) 30
                  | Some g \<Rightarrow> g)
      in if shape1 self grid = 0 then Inl ZeroDivisionError
         else
           (let gridsize = int_root num (length grid) (shape1 self grid)
            in if index_ok (lb self) intensity_dim \<and> index_ok (ub self) intensity_dim
               then
                 (case cred_level of
                    None \<Rightarrow>
                      (case predict num self grid False of
                         Inl e \<Rightarrow> Inl e
                       | Inr (ws, fmean, var) \<Rightarrow>
                           if gridsize ^ dim self \<noteq> numel fmean
                           then Inl (RuntimeError
                                  (shape_invalid (replicate (dim self) gridsize) (numel fmean)))
                           else if method = ''taylor''
                           then Inr (ws, Jnd (gradient_jnd num grid intensity_dim fmean))
                           else if method = ''step''
                           then Inr (ws, Jnd (multid_jnd num grid intensity_dim fmean))
                           else Inl (TypeError none_operand))
                  | Some c \<Rightarrow>
                      (let alpha = 1 - c;
                           qlower = alpha / 2;
                           qupper = 1 - alpha / 2
                       in case sample num self grid (Some confsamps) None of
                            Inl e \<Rightarrow> Inl e
                          | Inr (ws, fsamps) \<Rightarrow>
                              if method = ''taylor''
                              then
                                (if confsamps * gridsize ^ dim self \<noteq> length fsamps * length grid
                                 then Inl (RuntimeError
                                        (shape_invalid (confsamps # replicate (dim self) gridsize)
                                           (length fsamps * length grid)))
                                 else
                                   (let jnds = gradient_jnd_samples num grid intensity_dim fsamps
                                    in Inr (ws, Jnd_interval (quantile_clip num jnds (1 / 2))
                                                  (quantile_clip num jnds qlower)
                                                  (quantile_clip num jnds qupper))))
                              else if method = ''step''
                              then
                                (if fsamps \<noteq> [] \<and> gridsize ^ dim self \<noteq> length grid
                                 then Inl (RuntimeError
                                        (shape_invalid (replicate (dim self) gridsize) (length grid)))
                                 else if fsamps = [] then Inl (RuntimeError stack_empty)
                                 else
                                   (let jnds = multid_jnd_samples num grid intensity_dim fsamps
                                    in Inr (ws, Jnd_interval (quantile_clip num jnds (1 / 2))
                                                  (quantile_clip num jnds qlower)
                                                  (quantile_clip num jnds qupper))))
                              else Inl (RuntimeError (unknown_method method))))
               else Inl IndexError))"

section \<open>Construction from a configuration\<close>

text \<open>
  Modelled from the spec: \<open>aepsych.config.Config\<close> is not among the sources. It is a
  key-value source of settings read with explicit fallback defaults; a setting that
  is absent yields the fallback. \<open>lb\<close> and \<open>ub\<close> are read without a fallback.
\<close>

record Config =
  cfg_num_induc :: "nat option"
  cfg_num_samples :: "nat option"
  cfg_num_rejection_samples :: "nat option"
  cfg_lb :: "real list"
  cfg_ub :: "real list"
  cfg_dim :: "nat option"
  cfg_monotonic_idxs :: "int list option"

definition get_fallback :: "'a option \<Rightarrow> 'a \<Rightarrow> 'a" where
  "get_fallback setting fallback = (case setting of None \<Rightarrow> fallback | Some v \<Rightarrow> v)"

text \<open>
  \<^verbatim>\<open>
  def from_config(cls, config):
      num_induc = config.gettensor(classname, "num_induc", fallback=25)
      num_samples = config.gettensor(classname, "num_samples", fallback=250)
      num_rejection_samples = config.getint(classname, "num_rejection_samples", fallback=5000)
      lb = config.gettensor(classname, "lb")
      ub = config.gettensor(classname, "ub")
      dim = config.getint(classname, "dim", fallback=None)
      mean_covar_factory = config.getobj(classname, "mean_covar_factory", fallback=...)
      mean, covar = mean_covar_factory(config)
      monotonic_idxs = config.getlist(classname, "monotonic_idxs", fallback=[-1])
      return cls(monotonic_idxs=monotonic_idxs, lb=lb, ub=ub, dim=dim, num_induc=num_induc,
                 num_samples=num_samples, num_rejection_samples=num_rejection_samples,
                 mean_module=mean, covar_module=covar)
  \<close>
  The factory the configuration names is an argument; of its pair the mean module
  is kept.
\<close>

definition from_config ::
  "numerics \<Rightarrow> (Config \<Rightarrow> ConstantMeanPartialObsGrad) \<Rightarrow> Config \<Rightarrow> error + MonotonicRejectionGP" where
  "from_config num mean_covar_factory config =
     (let n_induc = get_fallback (cfg_num_induc config) 25;
          n_samples = get_fallback (cfg_num_samples config) 250;
          n_rejection = get_fallback (cfg_num_rejection_samples config) 5000;
          l = cfg_lb config;
          u = cfg_ub config;
          d = cfg_dim config;
          mean = mean_covar_factory config;
          idxs = get_fallback (cfg_monotonic_idxs config) [- 1]
      in init num idxs l u d (Some mean) None None n_induc n_samples n_rejection)"

section \<open>A concrete scenario\<close>

text \<open>
  The scenario of the regression test: bounds \<open>[0,0]\<close>--\<open>[4,4]\<close>, the second
  coordinate monotonic, two inducing points, three samples out of four draws, with
  fixed stand-ins for the numerics. Of the four draws the third (\<open>k = 2\<close>) is
  negative everywhere, the others are nowhere negative. The grid is the four corners
  of the bounds, two points per dimension.
\<close>

definition example_numerics :: numerics where
  "example_numerics =
     \<lparr>sobol_engine = (\<lambda>k. if k = 0 then [1 / 2, 1 / 2] else [1 / 4, 3 / 4]),
      posterior_draw = (\<lambda>self x_aug k j. if k = 2 then - 1 else real k),
      norm_cdf = (\<lambda>x. (1 + x / (1 + \<bar>x\<bar>)) / 2),
      norm_ppf = (\<lambda>p. p - 1 / 2),
      optimised_constant = (\<lambda>self. 7),
      make_scaled_sobol = (\<lambda>l u n. replicate n l),
      dim_grid = (\<lambda>l u d n. [[0, 0], [0, 4], [4, 0], [4, 4]]),
      powell_max = (\<lambda>self d fmean. (0, [])),
      powell_min = (\<lambda>self d fmean. (0, [])),
      gradient_jnd = (\<lambda>grid axis fmean. fmean),
      multid_jnd = (\<lambda>grid axis fmean. fmean),
      gradient_jnd_samples = (\<lambda>grid axis fsamps. fsamps),
      multid_jnd_samples = (\<lambda>grid axis fsamps. fsamps),
      quantile_clip = (\<lambda>jnds q. []),
      int_root = (\<lambda>r c. if r = 27000 \<and> c = 3 then 29
                         else if r = 900 \<and> c = 2 then 30
                         else if r = 4 \<and> c = 2 then 2
                         else 1)\<rparr>"

text \<open>The same numerics with a posterior whose every draw is negative everywhere.\<close>

definition rejecting_numerics :: numerics where
  "rejecting_numerics = example_numerics\<lparr>posterior_draw := (\<lambda>self x_aug k j. - 1)\<rparr>"

definition example_model :: MonotonicRejectionGP where
  "example_model =
     \<lparr>lb = [0, 0], ub = [4, 4], dim = 2,
      mean_module = \<lparr>constant_value = 3 / 2, requires_grad = False\<rparr>,
      likelihood = GaussianLikelihood, num_induc = 2, monotonic_idxs = [1],
      num_samples = 3, num_rejection_samples = 4, fixed_prior_mean = Some (3 / 2),
      inducing_points = [[2, 2], [1, 3]], train_inputs = None, train_targets = None\<rparr>"

definition example_config :: Config where
  "example_config =
     \<lparr>cfg_num_induc = Some 2, cfg_num_samples = Some 3, cfg_num_rejection_samples = Some 4,
      cfg_lb = [0, 0], cfg_ub = [4, 4], cfg_dim = None, cfg_monotonic_idxs = None\<rparr>"

definition example_factory :: "Config \<Rightarrow> ConstantMeanPartialObsGrad" where
  "example_factory config = \<lparr>constant_value = 0, requires_grad = True\<rparr>"

section \<open>Properties\<close>

subsection \<open>Shapes of the augmented point sets\<close>

lemma augment_rows:
  "augment_with_deriv_index X k = map (\<lambda>r. r @ [of_int k]) X"
  by (induction X) (simp_all add: augment_with_deriv_index_def cat_dim1_def scalar_mul_def ones_def)

lemma length_augment: "length (augment_with_deriv_index X k) = length X"
  by (simp add: augment_rows)

lemma deriv_cp_loop_concat:
  "deriv_cp_loop ip idxs acc = acc @ concat (map (\<lambda>i. augment_with_deriv_index ip (i + 1)) idxs)"
  by (induction idxs arbitrary: acc) (simp_all add: cat_dim0_def)

lemma length_concat_const:
  "(\<And>x. x \<in> set xs \<Longrightarrow> length (f x) = n) \<Longrightarrow> length (concat (map f xs)) = length xs * n"
  by (induction xs) simp_all

lemma length_constraint_points:
  "length (get_deriv_constraint_points self)
     = length (monotonic_idxs self) * length (inducing_points self)"
  by (simp add: get_deriv_constraint_points_def deriv_cp_loop_concat length_concat_const
      length_augment)

lemma length_list_repeat: "length (list_repeat xs n) = n * length xs"
  by (induction n) (simp_all add: list_repeat_def)

lemma length_sample_points:
  "length (sample_points self X)
     = length X + length (monotonic_idxs self) * length (inducing_points self)"
  by (simp add: sample_points_def cat_dim0_def length_augment length_constraint_points)

subsection \<open>The number of inducing points\<close>

text \<open>
  The constructor establishes \<open>inducing_ok\<close>, and fitting and updating keep it: it
  holds in every state a model goes through.
\<close>

lemma init_inducing_ok:
  "init num idxs l u d mean_arg likelihood_arg fpm_arg n_induc n_samples n_rejection = Inr self
   \<Longrightarrow> inducing_ok self"
  by (auto simp: init_def inducing_ok_def draw_sobol_samples_def Let_def
      split: sum.splits prod.splits)

lemma set_model_inducing_ok:
  "inducing_ok (set_model num self x y sd) = inducing_ok self"
  by (simp add: set_model_def Let_def fit_gpytorch_model_def load_state_dict_def
      set_train_data_def inducing_ok_def split: option.splits)

lemma fit_inducing_ok: "inducing_ok (fit num self x y) = inducing_ok self"
  by (simp add: fit_def set_model_inducing_ok)

lemma update_inducing_ok: "inducing_ok (update num self x y w) = inducing_ok self"
  by (simp add: update_def set_model_inducing_ok)

lemma from_config_inducing_ok:
  "from_config num factory config = Inr self \<Longrightarrow> inducing_ok self"
  by (simp add: from_config_def Let_def init_inducing_ok)

lemma init_example:
  "init example_numerics [1] [0, 0] [4, 4] None None (Some GaussianLikelihood) (Some (3 / 2)) 2 3 4
     = Inr example_model"
  by (simp add: init_def process_bounds_def draw_sobol_samples_def example_numerics_def
      example_model_def upt_rec [of _ "numeral _"] upt_rec [of _ "Suc _"])

lemma example_inducing_ok: "inducing_ok example_model"
  using init_example by (rule init_inducing_ok)

subsection \<open>What a sample call returns\<close>

text \<open>
  With \<open>num_induc\<close> inducing points the assertion of \<open>sample\<close> passes, and the call
  returns its warnings and the accepted draws cut down to the query rows.
\<close>

lemma sample_eq:
  assumes "inducing_ok self"
  shows "sample num self X samples_arg rejection_arg =
     Inr ((if get_fallback rejection_arg (num_rejection_samples self)
               < get_fallback samples_arg (num_samples self) * 20
           then [ratio_warning] else [])
          @ (if length (accepted_draws num self X
                  (get_fallback rejection_arg (num_rejection_samples self)))
                < get_fallback samples_arg (num_samples self)
             then [ShortfallWarning] else []),
          map (take (length X))
            (take (get_fallback samples_arg (num_samples self))
               (accepted_draws num self X
                  (get_fallback rejection_arg (num_rejection_samples self)))))"
proof -
  have len: "length (cat_dim0 (augment_with_deriv_index X 0) (get_deriv_constraint_points self))
      = length X + length (list_repeat (monotonic_idxs self) (num_induc self))"
    using assms length_sample_points [of self X]
    by (simp add: sample_points_def length_list_repeat inducing_ok_def mult.commute)
  show ?thesis
    unfolding sample_def Let_def get_fallback_def
    by (simp add: len RejectionSampler_def accepted_draws_def sample_points_def Let_def)
qed

lemma accepted_draws_length:
  "d \<in> set (accepted_draws num self X r) \<Longrightarrow> length d = length (sample_points self X)"
  by (auto simp: accepted_draws_def posterior_rsample_def)

subsection \<open>The augment operation\<close>

text \<open>
  C7. For a points tensor with \<open>N\<close> rows and \<open>C\<close> columns and a derivative index
  \<open>k\<close>, the augment operation returns a tensor with \<open>N\<close> rows and \<open>C + 1\<close> columns
  whose first \<open>C\<close> columns are the input unchanged and whose last column is \<open>k\<close> in
  every row. The operation is a function of its two arguments: it reads no state
  and changes none.
\<close>

theorem augment_appends_constant_column:
  assumes "\<forall>r \<in> set X. length r = C"
  shows "length (augment_with_deriv_index X k) = length X
       \<and> (\<forall>r \<in> set (augment_with_deriv_index X k). length r = C + 1 \<and> last r = of_int k)
       \<and> map (take C) (augment_with_deriv_index X k) = X
       \<and> (\<forall>i < length X. augment_with_deriv_index X k ! i = X ! i @ [of_int k])"
proof -
  have "map (take C) (map (\<lambda>r. r @ [real_of_int k]) X) = X"
    using assms by (induction X) simp_all
  then show ?thesis
    using assms by (auto simp: augment_rows)
qed

theorem augment_appends_constant_column_witness:
  "length (augment_with_deriv_index [[1, 2], [3, 4]] 2) = 2
   \<and> augment_with_deriv_index [[1, 2], [3, 4]] 2 = [[1, 2, 2], [3, 4, 2]]"
  using augment_appends_constant_column [of "[[1, 2], [3, 4]]" 2 2]
  by (simp add: augment_rows)

subsection \<open>The constraint point set\<close>

text \<open>
  C2. The constraint point set consists, for every index \<open>i\<close> of \<open>monotonic_idxs\<close>
  in order, of the inducing points augmented with the tag \<open>i + 1\<close>, one block after
  the other; it has \<open>num_induc * |monotonic_idxs|\<close> rows; for \<open>monotonic_idxs = [1]\<close>
  and \<open>num_induc = 2\<close> it has two rows, each with tag \<open>2\<close> in its last column.
\<close>

theorem constraint_points_block:
  assumes "inducing_ok self"
  shows "get_deriv_constraint_points self
           = concat (map (\<lambda>i. augment_with_deriv_index (inducing_points self) (i + 1))
                       (monotonic_idxs self))
       \<and> length (get_deriv_constraint_points self) = num_induc self * length (monotonic_idxs self)
       \<and> (monotonic_idxs self = [1] \<and> num_induc self = 2 \<longrightarrow>
            length (get_deriv_constraint_points self) = 2
            \<and> (\<forall>r \<in> set (get_deriv_constraint_points self). last r = 2))"
proof -
  have a: "get_deriv_constraint_points self
           = concat (map (\<lambda>i. augment_with_deriv_index (inducing_points self) (i + 1))
                       (monotonic_idxs self))"
    by (simp add: get_deriv_constraint_points_def deriv_cp_loop_concat)
  have b: "length (get_deriv_constraint_points self) = num_induc self * length (monotonic_idxs self)"
    using assms by (simp add: length_constraint_points inducing_ok_def)
  have c: "\<forall>r \<in> set (get_deriv_constraint_points self). last r = 2"
    if "monotonic_idxs self = [1]"
    using that by (auto simp: a augment_rows)
  have d: "length (get_deriv_constraint_points self) = 2"
    if "monotonic_idxs self = [1]" and "num_induc self = 2"
    using that b by simp
  from a b c d show ?thesis by blast
qed

theorem constraint_points_block_witness:
  "inducing_ok example_model
   \<and> monotonic_idxs example_model = [1] \<and> num_induc example_model = 2
   \<and> get_deriv_constraint_points example_model = [[2, 2, 2], [1, 3, 2]]"
  using constraint_points_block [OF example_inducing_ok]
  by (simp add: inducing_ok_def example_model_def augment_rows)

subsection \<open>The assertion of sample\<close>

text \<open>
  C10. In every model state with \<open>num_induc\<close> inducing points, for every list
  \<open>monotonic_idxs\<close> and every query tensor, the augmented point set of \<open>sample\<close> has
  \<open>X.shape[0] + len(monotonic_idxs * num_induc)\<close> rows: the constraint block has
  \<open>num_induc * |monotonic_idxs|\<close> rows and the repeated list has
  \<open>|monotonic_idxs| * num_induc\<close> elements. So \<open>sample\<close> never raises the assertion
  error.
\<close>

theorem sample_assertion_holds:
  assumes "inducing_ok self"
  shows "length (sample_points self X)
           = length X + length (list_repeat (monotonic_idxs self) (num_induc self))
       \<and> length (list_repeat (monotonic_idxs self) (num_induc self))
           = length (monotonic_idxs self) * num_induc self
       \<and> length (get_deriv_constraint_points self) = num_induc self * length (monotonic_idxs self)
       \<and> sample num self X samples_arg rejection_arg \<noteq> Inl AssertionError"
  using assms
  by (simp add: sample_eq length_sample_points length_list_repeat length_constraint_points
      inducing_ok_def mult.commute)

theorem sample_assertion_holds_witness:
  "inducing_ok example_model
   \<and> length (sample_points example_model [[0, 0]]) = 3
   \<and> sample example_numerics example_model [[0, 0]] None None \<noteq> Inl AssertionError"
  using sample_assertion_holds [OF example_inducing_ok, of "[[0, 0]]" example_numerics None None]
  by (simp add: inducing_ok_def example_model_def length_list_repeat)

subsection \<open>The sample batch\<close>

lemma example_defaults:
  "num_samples example_model = 3" "num_rejection_samples example_model = 4"
  by (simp_all add: example_model_def)

lemma example_accepted:
  "accepted_draws example_numerics example_model [[0, 0]] 4 = [[0, 0, 0], [1, 1, 1], [3, 3, 3]]"
  by code_simp

lemma example_accepted_twenty:
  "take (Suc 0) (accepted_draws example_numerics example_model [[0, 0]] 20) = [[0, 0, 0]]"
  "length (accepted_draws example_numerics example_model [[0, 0]] 20) = 19"
  by code_simp+

lemma example_sample:
  "sample example_numerics example_model [[0, 0]] None None = Inr ([ratio_warning], [[0], [1], [3]])"
  by (simp add: sample_eq [OF example_inducing_ok] get_fallback_def example_defaults
      example_accepted)

text \<open>
  C1. For every query tensor \<open>X\<close> with \<open>n\<close> rows and all \<open>num_samples = S\<close> and
  \<open>num_rejection_samples = R\<close> (given, or the model's stored defaults), \<open>sample\<close>
  returns a batch with at most \<open>S\<close> rows, with exactly \<open>S\<close> rows whenever at least
  \<open>S\<close> of the \<open>R\<close> posterior draws satisfy the monotonicity constraint, and every
  row of the batch has \<open>n\<close> entries: the values of an accepted draw at the first
  \<open>n\<close> augmented points, which are the query rows with tag \<open>0\<close>; the values at the
  constraint points are dropped.
\<close>

theorem sample_batch_shape:
  assumes "inducing_ok self"
    and "S = get_fallback samples_arg (num_samples self)"
    and "R = get_fallback rejection_arg (num_rejection_samples self)"
  shows "\<exists>ws out. sample num self X samples_arg rejection_arg = Inr (ws, out)
           \<and> length out \<le> S
           \<and> (S \<le> length (accepted_draws num self X R) \<longrightarrow> length out = S)
           \<and> (\<forall>row \<in> set out. length row = length X)
           \<and> out = map (take (length X)) (take S (accepted_draws num self X R))
           \<and> (\<forall>j < length X. sample_points self X ! j = X ! j @ [0])"
proof -
  let ?acc = "accepted_draws num self X R"
  let ?out = "map (take (length X)) (take S ?acc)"
  have rows: "\<forall>row \<in> set ?out. length row = length X"
  proof
    fix row assume "row \<in> set ?out"
    then obtain d where d: "d \<in> set (take S ?acc)" and row: "row = take (length X) d"
      by auto
    from d have "d \<in> set ?acc" by (rule in_set_takeD)
    then have "length d = length (sample_points self X)" by (rule accepted_draws_length)
    then show "length row = length X"
      by (simp add: row length_sample_points)
  qed
  have pts: "\<forall>j < length X. sample_points self X ! j = X ! j @ [0]"
    by (simp add: sample_points_def cat_dim0_def nth_append length_augment augment_rows)
  show ?thesis
    using rows pts assms(2,3) by (simp add: sample_eq [OF assms(1)])
qed

theorem sample_batch_shape_witness:
  "inducing_ok example_model
   \<and> sample example_numerics example_model [[0, 0]] None None = Inr ([ratio_warning], [[0], [1], [3]])
   \<and> length (accepted_draws example_numerics example_model [[0, 0]] 4) = 3"
proof -
  have s: "3 = get_fallback None (num_samples example_model)"
    and r: "4 = get_fallback None (num_rejection_samples example_model)"
    by (simp_all add: get_fallback_def example_defaults)
  show ?thesis
    using sample_batch_shape [where num = example_numerics and X = "[[0, 0]]",
        OF example_inducing_ok s r]
    by (simp add: example_accepted example_sample example_inducing_ok)
qed

subsection \<open>The warnings of sample\<close>

text \<open>
  C8. \<open>sample\<close> emits its warning, the one about the ratio of draws to samples, if
  and only if \<open>num_samples * 20 > num_rejection_samples\<close>, after the model's stored
  defaults have been substituted for omitted arguments. The warning does not abort
  the call: whether it is emitted or not, the call returns the accepted draws cut
  down to the query rows.
\<close>

theorem sample_ratio_warning:
  assumes "inducing_ok self"
    and "S = get_fallback samples_arg (num_samples self)"
    and "R = get_fallback rejection_arg (num_rejection_samples self)"
  shows "\<exists>ws out. sample num self X samples_arg rejection_arg = Inr (ws, out)
           \<and> (ratio_warning \<in> set ws \<longleftrightarrow> S * 20 > R)
           \<and> out = map (take (length X)) (take S (accepted_draws num self X R))"
  using assms(2,3) by (auto simp: sample_eq [OF assms(1)] ratio_warning_def)

lemma example_sample_twenty:
  "sample example_numerics example_model [[0, 0]] (Some 1) (Some 20) = Inr ([], [[0]])"
  by (simp add: sample_eq [OF example_inducing_ok] get_fallback_def example_accepted_twenty)

theorem sample_ratio_warning_witness:
  "inducing_ok example_model
   \<and> sample example_numerics example_model [[0, 0]] None None = Inr ([ratio_warning], [[0], [1], [3]])
   \<and> (3 :: nat) * 20 > 4
   \<and> sample example_numerics example_model [[0, 0]] (Some 1) (Some 20)
        = Inr ([], [[0]])
   \<and> \<not> (1 :: nat) * 20 > 20"
proof -
  have s: "3 = get_fallback None (num_samples example_model)"
    and r: "4 = get_fallback None (num_rejection_samples example_model)"
    by (simp_all add: get_fallback_def example_defaults)
  have s': "1 = get_fallback (Some 1) (num_samples example_model)"
    and r': "20 = get_fallback (Some 20) (num_rejection_samples example_model)"
    by (simp_all add: get_fallback_def)
  have "(3 :: nat) * 20 > 4" and "\<not> (1 :: nat) * 20 > 20"
    by simp_all
  then show ?thesis
    using sample_ratio_warning [where num = example_numerics and X = "[[0, 0]]",
        OF example_inducing_ok s r]
      sample_ratio_warning [where num = example_numerics and X = "[[0, 0]]",
        OF example_inducing_ok s' r']
      example_sample example_sample_twenty example_inducing_ok
    by blast
qed

subsection \<open>Prediction\<close>

lemma promote_squeeze: "promote_0d (vec_map f (squeeze vs)) = Vector (map f vs)"
  by (induction vs rule: squeeze.induct) simp_all

lemma entries_squeeze: "entries (squeeze vs) = vs"
  by (induction vs rule: squeeze.induct) simp_all

lemma shape_squeeze: "shape (squeeze vs) = (if length vs = 1 then [] else [length vs])"
  by (induction vs rule: squeeze.induct) simp_all

text \<open>A variance that is a number is not negative, so \<open>clamp_min(0)\<close> leaves it.\<close>

lemma var_col_nonneg: "clamp_min 0 (var_col c) = var_col c"
proof (cases "length c \<le> 1")
  case True
  then show ?thesis by (simp add: var_col_def)
next
  case False
  have "0 \<le> sum_list (map (\<lambda>x. (x - sum_list c / real (length c))\<^sup>2) c)"
    by (rule sum_list_nonneg) auto
  then have "0 \<le> sum_list (map (\<lambda>x. (x - sum_list c / real (length c))\<^sup>2) c)
                  / real (length c - 1)"
    by simp
  with False show ?thesis by (simp add: var_col_def max_def)
qed

lemma clamped_var_dim0: "map (clamp_min 0) (var_dim0 n A) = var_dim0 n A"
  by (simp add: var_dim0_def var_col_nonneg)

lemma predict_eq:
  assumes "sample num self X None None = Inr (ws, samples_f)"
  shows "predict num self X False
           = Inr (ws, squeeze (mean_dim0 (length X) samples_f),
                      squeeze (var_dim0 (length X) samples_f))"
    and "predict num self X True
           = Inr (ws, Vector (map (fl_map (norm_cdf num)) (mean_dim0 (length X) samples_f)),
                      Vector (map (fl_map (norm_cdf num)) (var_dim0 (length X) samples_f)))"
  using assms by (simp_all add: predict_def Let_def promote_squeeze clamped_var_dim0)

text \<open>For any number of query rows but one, both results have shape \<open>(n,)\<close>.\<close>

lemma predict_shape_rows:
  assumes "inducing_ok self" and "length X \<noteq> 1"
  shows "\<exists>ws mean variance. predict num self X False = Inr (ws, mean, variance)
           \<and> shape mean = [length X] \<and> shape variance = [length X]"
proof -
  obtain ws samples_f where s: "sample num self X None None = Inr (ws, samples_f)"
    using sample_eq [OF assms(1)] by blast
  show ?thesis
    using assms(2) by (simp add: predict_eq(1) [OF s] shape_squeeze mean_dim0_def var_dim0_def)
qed

text \<open>
  With at least two rows in the sample batch every variance is a number, and not
  negative. With fewer the variance is \<open>nan\<close>, and so is the mean of no rows.
\<close>

lemma var_col_number:
  assumes "2 \<le> length c"
  shows "fl_nonneg (var_col c)"
proof -
  from assms obtain v where v: "var_col c = Fin v"
    by (simp add: var_col_def)
  with var_col_nonneg [of c] have "max v 0 = v" by simp
  with v show ?thesis by simp
qed

lemma predict_variance_nonneg:
  assumes "sample num self X None None = Inr (ws, samples_f)" and "2 \<le> length samples_f"
  shows "\<exists>mean variance. predict num self X False = Inr (ws, mean, variance)
           \<and> list_all fl_nonneg (entries variance)"
  using assms(2)
  by (simp add: predict_eq(1) [OF assms(1)] entries_squeeze var_dim0_def list_all_iff
      var_col_number column_def)

lemma rejecting_accepted_pair:
  "accepted_draws rejecting_numerics example_model [[0, 0], [1, 1]] 4 = []"
  by code_simp

lemma predict_nan_example:
  "predict rejecting_numerics example_model [[0, 0], [1, 1]] False
     = Inr ([ratio_warning, ShortfallWarning], Vector [NaN, NaN], Vector [NaN, NaN])"
proof -
  have "sample rejecting_numerics example_model [[0, 0], [1, 1]] None None
          = Inr ([ratio_warning, ShortfallWarning], [])"
    by (simp add: sample_eq [OF example_inducing_ok] get_fallback_def example_defaults
        rejecting_accepted_pair)
  then show ?thesis
    by (simp add: predict_eq(1) mean_dim0_def var_dim0_def column_def mean_col_def var_col_def
        upt_rec [of _ "numeral _"] upt_rec [of _ "Suc _"])
qed

text \<open>
  C4 claims that \<open>predict(X)\<close> returns mean and variance of shape \<open>(n,)\<close> for every
  \<open>n\<close>, \<open>n = 1\<close> included, as the docstring of \<open>predict\<close> says. For a query tensor
  with one row \<open>squeeze()\<close> removes the only dimension: both results are
  zero-dimensional, of shape \<open>()\<close> and not \<open>(1,)\<close>.
\<close>

theorem predict_single_row_shape:
  assumes "inducing_ok self" and "length X = 1"
  shows "\<exists>ws mean variance. predict num self X False = Inr (ws, mean, variance)
           \<and> shape mean = [] \<and> shape variance = []
           \<and> shape mean \<noteq> [length X] \<and> shape variance \<noteq> [length X]"
proof -
  obtain ws samples_f where s: "sample num self X None None = Inr (ws, samples_f)"
    using sample_eq [OF assms(1)] by blast
  show ?thesis
    using assms(2) by (simp add: predict_eq(1) [OF s] shape_squeeze mean_dim0_def var_dim0_def)
qed

lemma example_predict:
  "predict example_numerics example_model [[0, 0]] False
     = Inr ([ratio_warning], Scalar (Fin (4 / 3)), Scalar (Fin (7 / 3)))"
  by (simp add: predict_eq(1) [OF example_sample] mean_dim0_def var_dim0_def column_def
      mean_col_def var_col_def power2_eq_square)

theorem predict_single_row_shape_witness:
  "inducing_ok example_model \<and> length [[0, 0 :: real]] = 1
   \<and> predict example_numerics example_model [[0, 0]] False
        = Inr ([ratio_warning], Scalar (Fin (4 / 3)), Scalar (Fin (7 / 3)))"
  using predict_single_row_shape [OF example_inducing_ok, of "[[0, 0]]" example_numerics]
  by (simp add: example_predict example_inducing_ok)

lemma example_cdf: "norm_cdf example_numerics = (\<lambda>x. (1 + x / (1 + \<bar>x\<bar>)) / 2)"
  by (simp add: example_numerics_def)

text \<open>
  C5. For every query tensor, \<open>predict(X, probability_space=True)\<close> returns, for
  every query row \<open>j\<close>, the standard normal CDF of the mean of the samples at \<open>j\<close>
  and the standard normal CDF of their variance (the sum of squared deviations from
  that mean over the number of samples less one): the variance goes through the
  same CDF as the mean, and through nothing else. Without samples both are \<open>nan\<close>,
  with one sample the variance is; both results are one-dimensional.
\<close>

theorem predict_probability_space:
  assumes "sample num self X None None = Inr (ws, samples_f)"
  shows "predict num self X True
           = Inr (ws,
                Vector (map (\<lambda>j. if samples_f = [] then NaN
                                 else Fin (norm_cdf num
                                        (sum_list (map (\<lambda>r. r ! j) samples_f)
                                           / real (length samples_f))))
                          [0..<length X]),
                Vector (map (\<lambda>j. if length samples_f \<le> 1 then NaN
                                 else Fin (norm_cdf num
                                        (sum_list (map (\<lambda>r. (r ! j
                                              - sum_list (map (\<lambda>r. r ! j) samples_f)
                                                  / real (length samples_f))\<^sup>2) samples_f)
                                           / real (length samples_f - 1))))
                          [0..<length X]))"
  by (simp add: predict_eq(2) [OF assms] mean_dim0_def var_dim0_def mean_col_def var_col_def
      column_def o_def)

theorem predict_probability_space_witness:
  "sample example_numerics example_model [[0, 0]] None None = Inr ([ratio_warning], [[0], [1], [3]])
   \<and> predict example_numerics example_model [[0, 0]] True
        = Inr ([ratio_warning], Vector [Fin (11 / 14)], Vector [Fin (17 / 20)])"
  using predict_probability_space [OF example_sample]
  by (simp add: example_sample example_cdf power2_eq_square)

subsection \<open>The fixed prior mean\<close>

lemma set_model_frozen:
  assumes "\<not> requires_grad (mean_module self)"
  shows "mean_module (set_model num self x y None) = mean_module self"
    and "mean_module (set_model num self x y (Some (state_dict self))) = mean_module self"
  using assms
  by (simp_all add: set_model_def Let_def fit_gpytorch_model_def load_state_dict_def
      set_train_data_def state_dict_def)

lemma init_classification:
  "init example_numerics [1] [0, 0] [4, 4] None None (Some BernoulliLikelihood) (Some (3 / 4)) 2 3 4
     = Inr (example_model\<lparr>mean_module := \<lparr>constant_value = norm_ppf example_numerics (3 / 4),
                                            requires_grad = False\<rparr>,
                          likelihood := BernoulliLikelihood,
                          fixed_prior_mean := Some (norm_ppf example_numerics (3 / 4))\<rparr>)"
  by (simp add: init_def process_bounds_def draw_sobol_samples_def example_numerics_def
      example_model_def upt_rec [of _ "numeral _"] upt_rec [of _ "Suc _"])

text \<open>
  C6. For every construction with \<open>fixed_prior_mean\<close> supplied, the mean module's
  constant is made non-learnable and set to \<open>norm.ppf(fixed_prior_mean)\<close> when the
  likelihood is Bernoulli (given, or by default), and to \<open>fixed_prior_mean\<close> itself
  otherwise; it has that value after \<open>fit\<close>, and after \<open>update\<close>.
\<close>

theorem fixed_prior_mean_frozen:
  assumes "init num idxs l u d mean_arg likelihood_arg (Some p) n_induc n_samples n_rejection
             = Inr self"
  shows "\<not> requires_grad (mean_module self)
       \<and> likelihood self = get_fallback likelihood_arg BernoulliLikelihood
       \<and> constant_value (mean_module self)
           = (if likelihood self = BernoulliLikelihood then norm_ppf num p else p)
       \<and> constant_value (mean_module (fit num self x y)) = constant_value (mean_module self)
       \<and> \<not> requires_grad (mean_module (fit num self x y))
       \<and> constant_value (mean_module (update num self x y w)) = constant_value (mean_module self)"
proof -
  have frozen: "\<not> requires_grad (mean_module self)"
    and lik: "likelihood self = get_fallback likelihood_arg BernoulliLikelihood"
    and val: "constant_value (mean_module self)
           = (if likelihood self = BernoulliLikelihood then norm_ppf num p else p)"
    using assms
    by (auto simp: init_def Let_def get_fallback_def split: sum.splits prod.splits option.splits)
  from frozen have "mean_module (fit num self x y) = mean_module self"
    and "mean_module (update num self x y w) = mean_module self"
    by (simp_all add: fit_def update_def set_model_frozen)
  with frozen lik val show ?thesis by simp
qed

theorem fixed_prior_mean_frozen_witness:
  "init example_numerics [1] [0, 0] [4, 4] None None (Some GaussianLikelihood) (Some (3 / 2)) 2 3 4
     = Inr example_model
   \<and> constant_value (mean_module example_model) = 3 / 2
   \<and> constant_value (mean_module (fit example_numerics example_model
        [[0, 0], [1, 1], [2, 2]] [[1], [2], [3]])) = 3 / 2"
  using fixed_prior_mean_frozen [OF init_example,
      of "[[0, 0], [1, 1], [2, 2]]" "[[1], [2], [3]]"]
  by (simp add: init_example) (simp add: example_model_def)

text \<open>
  The classification scenario: with a Bernoulli likelihood and a fixed prior mean of
  \<open>0.75\<close> the constant is \<open>norm.ppf(0.75)\<close>, whatever function \<open>norm.ppf\<close> is.
\<close>

lemma classification_constant:
  assumes "init num [1] [0, 0] [4, 4] None None (Some BernoulliLikelihood) (Some (3 / 4)) 2 3 4
             = Inr self"
  shows "constant_value (mean_module self) = norm_ppf num (3 / 4)"
  using assms
  by (auto simp: init_def Let_def split: sum.splits prod.splits)

subsection \<open>The default monotonic index\<close>

text \<open>
  C3 claims that a model built by \<open>from_config\<close> without a \<open>monotonic_idxs\<close> setting
  constrains the derivative along the last input dimension: that its constraint
  points carry a tag \<open>k > 0\<close>. The fallback is the list \<open>[-1]\<close>, and the tag of index
  \<open>i\<close> is \<open>i + 1\<close>: every constraint point carries tag \<open>0\<close>, the tag of a function
  value, and the constraint block is the inducing points augmented as query points
  are.
\<close>

theorem from_config_default_tag:
  assumes "cfg_monotonic_idxs config = None"
    and "from_config num factory config = Inr self"
  shows "monotonic_idxs self = [- 1]
       \<and> get_deriv_constraint_points self = augment_with_deriv_index (inducing_points self) 0
       \<and> (\<forall>r \<in> set (get_deriv_constraint_points self). last r = 0)
       \<and> \<not> (\<exists>r \<in> set (get_deriv_constraint_points self). 0 < last r)"
proof -
  have idxs: "monotonic_idxs self = [- 1]"
    using assms
    by (auto simp: from_config_def init_def Let_def get_fallback_def
        split: sum.splits prod.splits)
  then have cp: "get_deriv_constraint_points self
                   = augment_with_deriv_index (inducing_points self) 0"
    by (simp add: get_deriv_constraint_points_def cat_dim0_def)
  then show ?thesis
    using idxs by (auto simp: augment_rows)
qed

lemma example_from_config:
  "from_config example_numerics example_factory example_config
     = Inr (example_model\<lparr>mean_module := \<lparr>constant_value = 0, requires_grad = True\<rparr>,
                          likelihood := BernoulliLikelihood, monotonic_idxs := [- 1],
                          fixed_prior_mean := None\<rparr>)"
  by (simp add: from_config_def init_def process_bounds_def draw_sobol_samples_def
      example_numerics_def example_config_def example_factory_def get_fallback_def
      example_model_def upt_rec [of _ "numeral _"] upt_rec [of _ "Suc _"])

theorem from_config_default_tag_witness:
  "cfg_monotonic_idxs example_config = None
   \<and> get_deriv_constraint_points
        (example_model\<lparr>mean_module := \<lparr>constant_value = 0, requires_grad = True\<rparr>,
                          likelihood := BernoulliLikelihood, monotonic_idxs := [- 1],
                          fixed_prior_mean := None\<rparr>)
       = [[2, 2, 0], [1, 3, 0]]"
proof -
  have c: "cfg_monotonic_idxs example_config = None"
    by (simp add: example_config_def)
  show ?thesis
    using from_config_default_tag [OF c example_from_config]
    by (simp add: c augment_rows example_model_def)
qed

subsection \<open>Unknown method names\<close>

lemma predict_returns:
  assumes "inducing_ok self"
  shows "\<exists>ws mean variance. predict num self X ps = Inr (ws, mean, variance)"
proof -
  obtain ws samples_f where s: "sample num self X None None = Inr (ws, samples_f)"
    using sample_eq [OF assms(1)] by blast
  show ?thesis
    by (cases ps) (simp_all add: predict_eq [OF s])
qed

text \<open>
  An extremum type other than \<open>'min'\<close> and \<open>'max'\<close> raises the runtime error that
  names it, and so does a JND method other than \<open>'taylor'\<close> and \<open>'step'\<close> when a
  credible level is given.
\<close>

lemma get_extremum_unknown:
  assumes "inducing_ok self" and "extremum_type \<noteq> ''max''" and "extremum_type \<noteq> ''min''"
  shows "\<exists>pre suf. get_extremum num self extremum_type n
            = Inl (RuntimeError (pre @ extremum_type @ suf))"
proof -
  obtain ws mean variance where
    "predict num self (make_scaled_sobol num (lb self) (ub self) n) False = Inr (ws, mean, variance)"
    using predict_returns [OF assms(1)] by blast
  then have "get_extremum num self extremum_type n
      = Inl (RuntimeError ((''Unknown extremum type: '' @ apostrophe) @ extremum_type
              @ (apostrophe @ ''! Valid types: '' @ apostrophe @ ''min'' @ apostrophe @ '', ''
                         @ apostrophe @ ''max'' @ apostrophe @ '' '')))"
    using assms(2,3) by (simp add: get_extremum_def Let_def)
  then show ?thesis by blast
qed

lemma get_jnd_unknown_with_cred_level:
  assumes "inducing_ok self" and "method \<noteq> ''taylor''" and "method \<noteq> ''step''"
    and "grid = (case grid_arg of None \<Rightarrow> dim_grid num (lb self) (ub self) (dim self) 30
                 | Some g \<Rightarrow> g)"
    and "0 < shape1 self grid"
    and "index_ok (lb self) intensity_dim" and "index_ok (ub self) intensity_dim"
  shows "get_jnd num self grid_arg (Some c) intensity_dim confsamps method
           = Inl (RuntimeError (unknown_method method))"
proof -
  obtain ws samples_f where
    "sample num self grid (Some confsamps) None = Inr (ws, samples_f)"
    using sample_eq [OF assms(1)] by blast
  then show ?thesis
    using assms(2-) by (simp add: get_jnd_def Let_def)
qed

text \<open>The result of \<open>predict\<close> has one element per query row.\<close>

lemma predict_numel:
  assumes "predict num self X False = Inr (ws, mean, variance)"
  shows "numel mean = length X"
proof -
  have "numel (squeeze vs) = length vs" for vs
    by (induction vs rule: squeeze.induct) simp_all
  with assms show ?thesis
    by (auto simp: predict_def Let_def mean_dim0_def split: sum.splits prod.splits)
qed

lemma predict_error:
  assumes "predict num self X ps = Inl e"
  shows "e = AssertionError"
  using assms
  by (auto simp: predict_def sample_def Let_def split: sum.splits prod.splits if_splits)

text \<open>
  Without a credible level the runtime error that names the method is never
  raised, whatever the model, the grid and the method.
\<close>

lemma get_jnd_never_names_method:
  "get_jnd num self grid_arg None intensity_dim confsamps method
     \<noteq> Inl (RuntimeError (unknown_method method))"
proof
  assume a: "get_jnd num self grid_arg None intensity_dim confsamps method
     = Inl (RuntimeError (unknown_method method))"
  define grid where "grid = (case grid_arg of
      None \<Rightarrow> dim_grid num (lb self) (ub self) (dim self) 30 | Some g \<Rightarrow> g)"
  show False
  proof (cases "predict num self grid False")
    case (Inl e)
    then have "e = AssertionError" by (rule predict_error)
    with a Inl show False
      by (simp add: get_jnd_def Let_def grid_def [symmetric] split: if_splits)
  next
    case (Inr r)
    then obtain ws fmean var where "predict num self grid False = Inr (ws, fmean, var)"
      by (cases r) auto
    with a show False
      by (simp add: get_jnd_def Let_def grid_def [symmetric] shape_invalid_def unknown_method_def
          split: if_splits)
  qed
qed

text \<open>
  When the grid does not have \<open>gridsize ^ dim\<close> rows, \<open>reshape\<close> raises before the
  method is looked at. This is so for every model of three dimensions on its
  default grid of \<open>27000\<close> rows, where \<open>gridsize\<close> is \<open>29\<close>.
\<close>

lemma get_jnd_reshape_error:
  assumes "inducing_ok self"
    and "grid = (case grid_arg of None \<Rightarrow> dim_grid num (lb self) (ub self) (dim self) 30
                 | Some g \<Rightarrow> g)"
    and "0 < shape1 self grid" and "0 < dim self"
    and "index_ok (lb self) intensity_dim" and "index_ok (ub self) intensity_dim"
    and "int_root num (length grid) (shape1 self grid) ^ dim self \<noteq> length grid"
  shows "get_jnd num self grid_arg None intensity_dim confsamps method
           = Inl (RuntimeError
                    (shape_invalid
                       (replicate (dim self) (int_root num (length grid) (shape1 self grid)))
                       (length grid)))"
proof -
  obtain ws mean variance where p: "predict num self grid False = Inr (ws, mean, variance)"
    using predict_returns [OF assms(1)] by blast
  from p have "numel mean = length grid" by (rule predict_numel)
  with p show ?thesis
    using assms(2-) by (simp add: get_jnd_def Let_def)
qed

text \<open>
  C9 claims the descriptive error for every unknown JND method and any credible
  level, \<open>None\<close> included, as the docstring of \<open>get_jnd\<close> promises
  (\<open>Raises: RuntimeError: for passing an unknown method\<close>). Without a credible level,
  for a model of at least one dimension, on a grid of \<open>gridsize ^ dim\<close> rows with
  columns and an intensity dimension within the bounds, an unknown method passes
  the reshape and raises the type error of \<open>1 - None\<close> instead, which does not name
  the method; the runtime error for the unknown method is not raised.
\<close>

theorem get_jnd_unknown_without_cred_level:
  assumes "inducing_ok self" and "method \<noteq> ''taylor''" and "method \<noteq> ''step''"
    and "grid = (case grid_arg of None \<Rightarrow> dim_grid num (lb self) (ub self) (dim self) 30
                 | Some g \<Rightarrow> g)"
    and "0 < shape1 self grid" and "0 < dim self"
    and "index_ok (lb self) intensity_dim" and "index_ok (ub self) intensity_dim"
    and "int_root num (length grid) (shape1 self grid) ^ dim self = length grid"
  shows "get_jnd num self grid_arg None intensity_dim confsamps method
           = Inl (TypeError none_operand)
       \<and> get_jnd num self grid_arg None intensity_dim confsamps method
           \<noteq> Inl (RuntimeError (unknown_method method))"
proof -
  obtain ws mean variance where p: "predict num self grid False = Inr (ws, mean, variance)"
    using predict_returns [OF assms(1)] by blast
  from p have "numel mean = length grid" by (rule predict_numel)
  with p have "get_jnd num self grid_arg None intensity_dim confsamps method
           = Inl (TypeError none_operand)"
    using assms(2-) by (simp add: get_jnd_def Let_def)
  then show ?thesis by simp
qed

lemma example_grid:
  "dim_grid example_numerics l u d n = [[0, 0], [0, 4], [4, 0], [4, 4]]"
  "int_root example_numerics 4 2 = 2"
  "lb example_model = [0, 0]" "ub example_model = [4, 4]" "dim example_model = 2"
  by (simp_all add: example_numerics_def example_model_def)

theorem get_jnd_unknown_without_cred_level_witness:
  "inducing_ok example_model \<and> ''foo'' \<noteq> ''taylor'' \<and> ''foo'' \<noteq> ''step''
   \<and> shape1 example_model [[0, 0], [0, 4], [4, 0], [4, 4]] = 2
   \<and> index_ok [0, 0 :: real] (- 1)
   \<and> int_root example_numerics 4 2 ^ 2 = (4 :: nat)
   \<and> get_jnd example_numerics example_model None None (- 1) 500 ''foo''
       = Inl (TypeError none_operand)"
proof -
  have a: "''foo'' \<noteq> ''taylor''" and b: "''foo'' \<noteq> ''step''"
    by simp_all
  let ?grid = "[[0, 0], [0, 4], [4, 0], [4, 4 :: real]]"
  have g: "?grid = (case None of
              None \<Rightarrow> dim_grid example_numerics (lb example_model) (ub example_model)
                        (dim example_model) 30
            | Some g \<Rightarrow> g)"
    by (simp add: example_grid)
  have c: "0 < shape1 example_model ?grid" "0 < dim example_model"
    by (simp_all add: shape1_def example_grid)
  have i: "index_ok (lb example_model) (- 1)" "index_ok (ub example_model) (- 1)"
    by (simp_all add: index_ok_def example_grid)
  have r: "int_root example_numerics (length ?grid) (shape1 example_model ?grid)
             ^ dim example_model = length ?grid"
    by (simp add: shape1_def example_numerics_def example_model_def)
  have "shape1 example_model ?grid = 2" and "index_ok [0, 0 :: real] (- 1)"
    and "int_root example_numerics 4 2 ^ 2 = (4 :: nat)"
    by (simp_all add: shape1_def index_ok_def example_grid)
  then show ?thesis
    using get_jnd_unknown_without_cred_level [OF example_inducing_ok a b g c i r]
      example_inducing_ok a b
    by blast
qed

end
